theory Spec2Isabelle
  imports Complex_Main
begin

section \<open>The host platform: Web Audio objects\<close>

text \<open>
  The noise generator drives the browser's Web Audio API. Audio nodes are JavaScript
  objects that the module reaches through references kept in its arrays, so they live
  in an explicit heap: a node's reference is its index in the list \<open>nodes\<close>, and a
  node that is created is appended. JavaScript numbers that the module only stores and
  passes on (volumes, frequencies, Q) are reals, and so are the samples, with
  \<open>Math.random() * 2 - 1\<close> computed on reals; sample rates, durations and frame counts
  are natural numbers.
\<close>

type_synonym node_id = nat

datatype js_error = InvalidStateError

datatype context_state = Suspended | Running | Closed

datatype biquad_type =
  Lowpass | Highpass | Bandpass | Lowshelf | Highshelf | Peaking | Notch | Allpass

datatype playback = Unscheduled | Started | Stopped

record audio_buffer =
  buf_sampleRate :: nat
  buf_length :: nat
  buf_channels :: "real list list"

datatype node =
    BufferSource "audio_buffer option" bool playback
  | Gain real
  | BiquadFilter biquad_type real real

datatype target = Node node_id | Destination

record audio_context =
  ctx_state :: context_state
  ctx_sampleRate :: nat
  ctx_resumes :: nat

section \<open>The module's variables and the world around them\<close>

text \<open>
  \<open>engine\<close> holds the seven module-level variables of the noise generator, under the
  names the source gives them. \<open>world\<close> extends it with what the host owns: the heap
  of audio nodes and the edges between them, the state and sample rate a newly
  constructed AudioContext reports, the source of \<open>Math.random()\<close> (a sequence of
  draws and the position of the next one), whether the click/touchstart resume
  listeners are registered, and the console.
\<close>

record engine =
  audioContext :: "audio_context option"
  bufferSources :: "node_id list"
  gainNodes :: "node_id list"
  filterNodes :: "node_id list"
  isPlaying :: bool
  currentVolume :: real
  currentNoiseType :: string

record world = engine +
  nodes :: "node list"
  connections :: "(node_id \<times> target) list"
  newContextState :: context_state
  deviceSampleRate :: nat
  randomDraws :: "nat \<Rightarrow> real"
  randomPos :: nat
  resumeListeners :: bool
  console :: "string list"

text \<open>The state of a freshly loaded module: the initialisers of lines 7 to 13.\<close>

definition initial :: "context_state \<Rightarrow> nat \<Rightarrow> (nat \<Rightarrow> real) \<Rightarrow> world" where
  "initial st rate draws =
     \<lparr> audioContext = None, bufferSources = [], gainNodes = [], filterNodes = [],
       isPlaying = False, currentVolume = 0.3, currentNoiseType = ''brown'',
       nodes = [], connections = [], newContextState = st, deviceSampleRate = rate,
       randomDraws = draws, randomPos = 0, resumeListeners = False, console = [] \<rparr>"

subsection \<open>Platform operations\<close>

text \<open>\<open>Math.random()\<close>: the next draw of the host's random source.\<close>

definition Math_random :: "world \<Rightarrow> real \<times> world" where
  "Math_random w = (randomDraws w (randomPos w), w\<lparr>randomPos := Suc (randomPos w)\<rparr>)"

text \<open>\<open>ctx.createBuffer(channels, length, rate)\<close>: zero-filled channels.\<close>

definition createBuffer :: "nat \<Rightarrow> nat \<Rightarrow> nat \<Rightarrow> audio_buffer" where
  "createBuffer numberOfChannels len rate =
     \<lparr> buf_sampleRate = rate, buf_length = len,
       buf_channels = replicate numberOfChannels (replicate len 0) \<rparr>"

definition getChannelData :: "audio_buffer \<Rightarrow> nat \<Rightarrow> real list" where
  "getChannelData buffer c = buf_channels buffer ! c"

text \<open>Node constructors append the new node, with the defaults of the Web Audio API.\<close>

definition createBufferSource :: "world \<Rightarrow> node_id \<times> world" where
  "createBufferSource w =
     (length (nodes w), w\<lparr>nodes := nodes w @ [BufferSource None False Unscheduled]\<rparr>)"

definition createGain :: "world \<Rightarrow> node_id \<times> world" where
  "createGain w = (length (nodes w), w\<lparr>nodes := nodes w @ [Gain 1]\<rparr>)"

definition createBiquadFilter :: "world \<Rightarrow> node_id \<times> world" where
  "createBiquadFilter w =
     (length (nodes w), w\<lparr>nodes := nodes w @ [BiquadFilter Lowpass 350 1]\<rparr>)"

text \<open>
  Property assignments on a node; a node of another kind is left as it is, and so is the
  heap when the reference is not in it (\<open>xs[i := x]\<close> is \<open>xs\<close> beyond the end).
\<close>

definition update_node :: "node_id \<Rightarrow> (node \<Rightarrow> node) \<Rightarrow> world \<Rightarrow> world" where
  "update_node i f w = w\<lparr>nodes := (nodes w)[i := f (nodes w ! i)]\<rparr>"

definition set_buffer :: "node_id \<Rightarrow> audio_buffer \<Rightarrow> world \<Rightarrow> world" where
  "set_buffer i b =
     update_node i (\<lambda>n. case n of BufferSource _ l p \<Rightarrow> BufferSource (Some b) l p | _ \<Rightarrow> n)"

definition set_loop :: "node_id \<Rightarrow> bool \<Rightarrow> world \<Rightarrow> world" where
  "set_loop i l =
     update_node i (\<lambda>n. case n of BufferSource b _ p \<Rightarrow> BufferSource b l p | _ \<Rightarrow> n)"

definition set_gain_value :: "node_id \<Rightarrow> real \<Rightarrow> world \<Rightarrow> world" where
  "set_gain_value i v = update_node i (\<lambda>n. case n of Gain _ \<Rightarrow> Gain v | _ \<Rightarrow> n)"

definition set_filter_type :: "node_id \<Rightarrow> biquad_type \<Rightarrow> world \<Rightarrow> world" where
  "set_filter_type i t =
     update_node i (\<lambda>n. case n of BiquadFilter _ f q \<Rightarrow> BiquadFilter t f q | _ \<Rightarrow> n)"

definition set_frequency_value :: "node_id \<Rightarrow> real \<Rightarrow> world \<Rightarrow> world" where
  "set_frequency_value i f =
     update_node i (\<lambda>n. case n of BiquadFilter t _ q \<Rightarrow> BiquadFilter t f q | _ \<Rightarrow> n)"

definition set_Q_value :: "node_id \<Rightarrow> real \<Rightarrow> world \<Rightarrow> world" where
  "set_Q_value i q =
     update_node i (\<lambda>n. case n of BiquadFilter t f _ \<Rightarrow> BiquadFilter t f q | _ \<Rightarrow> n)"

definition connect :: "node_id \<Rightarrow> target \<Rightarrow> world \<Rightarrow> world" where
  "connect i t w = w\<lparr>connections := connections w @ [(i, t)]\<rparr>"

text \<open>
  \<open>source.start(0)\<close> schedules a buffer source. The module calls it once, on a node it
  has just created.
\<close>

definition source_start :: "node_id \<Rightarrow> world \<Rightarrow> world" where
  "source_start i =
     update_node i (\<lambda>n. case n of BufferSource b l _ \<Rightarrow> BufferSource b l Started | _ \<Rightarrow> n)"

text \<open>
  \<open>source.stop()\<close> halts a source that is playing, and throws on one that is not
  (never started, or already halted): the failure the module catches.
\<close>

definition source_stop :: "node_id \<Rightarrow> world \<Rightarrow> js_error + world" where
  "source_stop i w =
     (if i < length (nodes w) then
        (case nodes w ! i of
           BufferSource b l Started \<Rightarrow> Inr (w\<lparr>nodes := (nodes w)[i := BufferSource b l Stopped]\<rparr>)
         | _ \<Rightarrow> Inl InvalidStateError)
      else Inl InvalidStateError)"

text \<open>
  \<open>ctx.resume()\<close> asks the platform to resume the context. The request is counted;
  the state itself changes when the platform decides (\<open>platform_state\<close> below).
\<close>

definition ctx_resume :: "world \<Rightarrow> world" where
  "ctx_resume w =
     w\<lparr>audioContext := map_option (\<lambda>c. c\<lparr>ctx_resumes := Suc (ctx_resumes c)\<rparr>) (audioContext w)\<rparr>"

definition console_log :: "string \<Rightarrow> world \<Rightarrow> world" where
  "console_log s w = w\<lparr>console := console w @ [s]\<rparr>"

section \<open>The noise generator\<close>

text \<open>
  \<open>initAudioContext\<close> (lines 15 to 33): constructs the context on first use, registers
  the resume listeners when it starts out suspended, and returns the context.
\<close>

definition initAudioContext :: "world \<Rightarrow> audio_context \<times> world" where
  "initAudioContext w =
     (case audioContext w of
        Some ctx \<Rightarrow> (ctx, w)
      | None \<Rightarrow>
          (let ctx = \<lparr> ctx_state = newContextState w, ctx_sampleRate = deviceSampleRate w,
                       ctx_resumes = 0 \<rparr>;
               w1 = w\<lparr>audioContext := Some ctx\<rparr>;
               w2 = (if ctx_state ctx = Suspended then w1\<lparr>resumeListeners := True\<rparr> else w1)
           in (ctx, w2)))"

text \<open>
  \<open>createPinkNoiseFilter\<close> and \<open>createBrownNoiseFilters\<close> (lines 39 to 63) are defined
  by the module and called nowhere in it.
\<close>

definition createPinkNoiseFilter :: "world \<Rightarrow> node_id \<times> world" where
  "createPinkNoiseFilter w =
     (let (filter, w1) = createBiquadFilter w;
          w2 = set_filter_type filter Highpass w1;
          w3 = set_frequency_value filter 20 w2
      in (filter, w3))"

definition createBrownNoiseFilters :: "world \<Rightarrow> node_id list \<times> world" where
  "createBrownNoiseFilters w =
     (let (filter1, w1) = createBiquadFilter w;
          w2 = set_filter_type filter1 Lowpass w1;
          w3 = set_frequency_value filter1 1000 w2;
          w4 = set_Q_value filter1 0.707 w3;
          (filter2, w5) = createBiquadFilter w4;
          w6 = set_filter_type filter2 Lowpass w5;
          w7 = set_frequency_value filter2 500 w6;
          w8 = set_Q_value filter2 0.707 w7
      in ([filter1, filter2], w8))"

text \<open>
  \<open>generateWhiteNoiseBuffer\<close> (lines 68 to 78). \<open>fill_noise\<close> is its \<open>for\<close> loop:
  \<open>i\<close> counts up to \<open>bufferSize\<close>, and each round stores \<open>Math.random() * 2 - 1\<close>
  at index \<open>i\<close> of the channel data.
\<close>

function fill_noise :: "nat \<Rightarrow> nat \<Rightarrow> real list \<Rightarrow> world \<Rightarrow> real list \<times> world" where
  "fill_noise i bufferSize data w =
     (if i < bufferSize then
        (let (r, w1) = Math_random w
         in fill_noise (Suc i) bufferSize (data[i := r * 2 - 1]) w1)
      else (data, w))"
  by pat_completeness auto
termination
  by (relation "measure (\<lambda>(i, bufferSize, data, w). bufferSize - i)") auto

declare fill_noise.simps [simp del]

definition generateWhiteNoiseBuffer :: "audio_context \<Rightarrow> nat \<Rightarrow> world \<Rightarrow> audio_buffer \<times> world" where
  "generateWhiteNoiseBuffer ctx duration w =
     (let bufferSize = ctx_sampleRate ctx * duration;
          buffer = createBuffer 1 bufferSize (ctx_sampleRate ctx);
          (data, w1) = fill_noise 0 bufferSize (getChannelData buffer 0) w
      in (buffer\<lparr>buf_channels := (buf_channels buffer)[0 := data]\<rparr>, w1))"

text \<open>
  \<open>startNoise\<close> (lines 85 to 152). The three string comparisons are kept in the
  source's order; a type that is none of the three builds no filter and connects the
  source to nothing.
\<close>

definition startNoise :: "string \<Rightarrow> real \<Rightarrow> world \<Rightarrow> world" where
  "startNoise noiseType volume w =
     (if isPlaying w then w
      else
        (let (ctx, w1) = initAudioContext w;
             w2 = (if ctx_state ctx = Suspended then ctx_resume w1 else w1);
             w3 = w2\<lparr>currentVolume := volume\<rparr>;
             w4 = w3\<lparr>currentNoiseType := noiseType\<rparr>;
             (buffer, w5) = generateWhiteNoiseBuffer ctx 2 w4;
             (source, w6) = createBufferSource w5;
             w7 = set_buffer source buffer w6;
             w8 = set_loop source True w7;
             (gainNode, w9) = createGain w8;
             w10 = set_gain_value gainNode volume w9;
             w11 =
               (if noiseType = ''white'' then connect source (Node gainNode) w10
                else if noiseType = ''pink'' then
                  (let (filter, f1) = createBiquadFilter w10;
                       f2 = set_filter_type filter Highpass f1;
                       f3 = set_frequency_value filter 100 f2;
                       f4 = set_Q_value filter 0.707 f3;
                       f5 = connect source (Node filter) f4;
                       f6 = connect filter (Node gainNode) f5
                   in f6\<lparr>filterNodes := filterNodes f6 @ [filter]\<rparr>)
                else if noiseType = ''brown'' then
                  (let (filter1, b1) = createBiquadFilter w10;
                       b2 = set_filter_type filter1 Lowpass b1;
                       b3 = set_frequency_value filter1 500 b2;
                       b4 = set_Q_value filter1 0.707 b3;
                       (filter2, b5) = createBiquadFilter b4;
                       b6 = set_filter_type filter2 Lowpass b5;
                       b7 = set_frequency_value filter2 200 b6;
                       b8 = set_Q_value filter2 0.707 b7;
                       b9 = connect source (Node filter1) b8;
                       b10 = connect filter1 (Node filter2) b9;
                       b11 = connect filter2 (Node gainNode) b10
                   in b11\<lparr>filterNodes := filterNodes b11 @ [filter1, filter2]\<rparr>)
                else w10);
             w12 = connect gainNode Destination w11;
             w13 = source_start source w12;
             w14 = w13\<lparr>bufferSources := bufferSources w13 @ [source]\<rparr>;
             w15 = w14\<lparr>gainNodes := gainNodes w14 @ [gainNode]\<rparr>
         in w15\<lparr>isPlaying := True\<rparr>))"

definition startBrownNoise :: "real \<Rightarrow> world \<Rightarrow> world" where
  "startBrownNoise volume w = startNoise ''brown'' volume w"

text \<open>
  \<open>stopBrownNoise\<close> (lines 159 to 174). \<open>stop_each\<close> is the \<open>forEach\<close> over
  \<open>bufferSources\<close>: a \<open>source.stop()\<close> that throws is caught and the loop goes on.
\<close>

fun stop_each :: "node_id list \<Rightarrow> world \<Rightarrow> world" where
  "stop_each [] w = w"
| "stop_each (source # rest) w =
     stop_each rest (case source_stop source w of Inl e \<Rightarrow> w | Inr w1 \<Rightarrow> w1)"

definition stopBrownNoise :: "world \<Rightarrow> world" where
  "stopBrownNoise w =
     (if \<not> isPlaying w then w
      else
        (let w1 = stop_each (bufferSources w) w;
             w2 = w1\<lparr>bufferSources := []\<rparr>;
             w3 = w2\<lparr>gainNodes := []\<rparr>;
             w4 = w3\<lparr>filterNodes := []\<rparr>
         in w4\<lparr>isPlaying := False\<rparr>))"

text \<open>\<open>changeNoiseType\<close> (lines 180 to 185).\<close>

definition changeNoiseType :: "string \<Rightarrow> world \<Rightarrow> world" where
  "changeNoiseType noiseType w =
     (if isPlaying w then
        (let w1 = stopBrownNoise w
         in startNoise noiseType (currentVolume w1) w1)
      else w)"

text \<open>\<open>setBrownNoiseVolume\<close> (lines 187 to 192), with its \<open>forEach\<close> over \<open>gainNodes\<close>.\<close>

fun set_each_gain :: "node_id list \<Rightarrow> real \<Rightarrow> world \<Rightarrow> world" where
  "set_each_gain [] volume w = w"
| "set_each_gain (gainNode # rest) volume w =
     set_each_gain rest volume (set_gain_value gainNode volume w)"

definition setBrownNoiseVolume :: "real \<Rightarrow> world \<Rightarrow> world" where
  "setBrownNoiseVolume volume w =
     (let w1 = w\<lparr>currentVolume := volume\<rparr>
      in set_each_gain (gainNodes w1) volume w1)"

definition isBrownNoisePlaying :: "world \<Rightarrow> bool" where
  "isBrownNoisePlaying w = isPlaying w"

subsection \<open>Listeners\<close>

text \<open>
  The \<open>visibilitychange\<close> listener (lines 211 to 222); \<open>hidden\<close> is the value of
  \<open>document.hidden\<close> when the event fires.
\<close>

definition on_visibilitychange :: "bool \<Rightarrow> world \<Rightarrow> world" where
  "on_visibilitychange hidden w =
     (if hidden \<and> isPlaying w then console_log ''Background playback: Noise continues'' w
      else if \<not> hidden \<and> isPlaying w then
        (let (ctx, w1) = initAudioContext w
         in if ctx_state ctx = Suspended then ctx_resume w1 else w1)
      else w)"

text \<open>The \<open>beforeunload\<close> listener (lines 225 to 228).\<close>

definition on_beforeunload :: "world \<Rightarrow> world" where
  "on_beforeunload w = stopBrownNoise w"

text \<open>
  The \<open>resume\<close> closure that \<open>initAudioContext\<close> registers for click and touchstart,
  and the fulfilment of its promise, which removes the two listeners.
\<close>

definition on_gesture :: "world \<Rightarrow> world" where
  "on_gesture w = (if resumeListeners w then ctx_resume w else w)"

definition on_resume_fulfilled :: "world \<Rightarrow> world" where
  "on_resume_fulfilled w = w\<lparr>resumeListeners := False\<rparr>"

subsection \<open>What the platform does on its own\<close>

text \<open>
  The platform may change the state of the context (auto-suspending a backgrounded
  page, resuming after a gesture) and may halt a playing source.
\<close>

definition platform_state :: "context_state \<Rightarrow> world \<Rightarrow> world" where
  "platform_state st w =
     w\<lparr>audioContext := map_option (\<lambda>c. c\<lparr>ctx_state := st\<rparr>) (audioContext w)\<rparr>"

definition platform_halts :: "node_id \<Rightarrow> world \<Rightarrow> world" where
  "platform_halts i =
     update_node i (\<lambda>n. case n of BufferSource b l Started \<Rightarrow> BufferSource b l Stopped | _ \<Rightarrow> n)"

subsection \<open>Runs\<close>

text \<open>
  Everything that can happen to a loaded module: a call of one of its exported
  functions, one of its listeners firing, or the platform acting on its own.
\<close>

datatype event =
    Start string real
  | StartBrown real
  | Stop
  | ChangeType string
  | SetVolume real
  | VisibilityChange bool
  | BeforeUnload
  | Gesture
  | ResumeFulfilled
  | PlatformState context_state
  | PlatformHalts node_id

fun step :: "world \<Rightarrow> event \<Rightarrow> world" where
  "step w (Start t v) = startNoise t v w"
| "step w (StartBrown v) = startBrownNoise v w"
| "step w Stop = stopBrownNoise w"
| "step w (ChangeType t) = changeNoiseType t w"
| "step w (SetVolume v) = setBrownNoiseVolume v w"
| "step w (VisibilityChange h) = on_visibilitychange h w"
| "step w BeforeUnload = on_beforeunload w"
| "step w Gesture = on_gesture w"
| "step w ResumeFulfilled = on_resume_fulfilled w"
| "step w (PlatformState st) = platform_state st w"
| "step w (PlatformHalts i) = platform_halts i w"

definition run :: "world \<Rightarrow> event list \<Rightarrow> world" where
  "run w evs = foldl step w evs"

subsection \<open>Reading a session\<close>

text \<open>The nodes behind a list of references, and the references that are live.\<close>

definition deref :: "world \<Rightarrow> node_id list \<Rightarrow> node list" where
  "deref w ids = map (\<lambda>i. nodes w ! i) ids"

definition session_nodes :: "world \<Rightarrow> node_id list" where
  "session_nodes w = bufferSources w @ gainNodes w @ filterNodes w"

section \<open>Closed forms\<close>

text \<open>
  What the operations compute, written as single record updates. The lemmas of the next
  section prove that the operations above equal these closed forms.
\<close>

text \<open>The samples a run of \<open>fill_noise\<close> writes: draw \<open>pos + k\<close> at index \<open>k\<close>.\<close>

definition noise_samples :: "(nat \<Rightarrow> real) \<Rightarrow> nat \<Rightarrow> nat \<Rightarrow> real list" where
  "noise_samples draws pos n = map (\<lambda>k. draws (pos + k) * 2 - 1) [0..<n]"

text \<open>The context \<open>initAudioContext\<close> returns, and that context after \<open>startNoise\<close>.\<close>

definition the_context :: "world \<Rightarrow> audio_context" where
  "the_context w =
     (case audioContext w of
        Some ctx \<Rightarrow> ctx
      | None \<Rightarrow> \<lparr> ctx_state = newContextState w, ctx_sampleRate = deviceSampleRate w, ctx_resumes = 0 \<rparr>)"

definition resumed_context :: "world \<Rightarrow> audio_context" where
  "resumed_context w =
     (if ctx_state (the_context w) = Suspended
      then (the_context w)\<lparr>ctx_resumes := Suc (ctx_resumes (the_context w))\<rparr>
      else the_context w)"

text \<open>
  The filter nodes \<open>startNoise\<close> creates for a type, their references when the source
  is node \<open>n\<close> (the gain node is \<open>n + 1\<close>), and the edges it adds.
\<close>

definition chain_nodes :: "string \<Rightarrow> node list" where
  "chain_nodes t =
     (if t = ''white'' then []
      else if t = ''pink'' then [BiquadFilter Highpass 100 0.707]
      else if t = ''brown'' then [BiquadFilter Lowpass 500 0.707, BiquadFilter Lowpass 200 0.707]
      else [])"

definition chain_ids :: "string \<Rightarrow> nat \<Rightarrow> node_id list" where
  "chain_ids t n = map (\<lambda>k. n + 2 + k) [0..<length (chain_nodes t)]"

definition chain_edges :: "string \<Rightarrow> nat \<Rightarrow> (node_id \<times> target) list" where
  "chain_edges t n =
     (if t = ''white'' then [(n, Node (n + 1))]
      else if t = ''pink'' then [(n, Node (n + 2)), (n + 2, Node (n + 1))]
      else if t = ''brown'' then [(n, Node (n + 2)), (n + 2, Node (n + 3)), (n + 3, Node (n + 1))]
      else []) @ [(n + 1, Destination)]"

definition started :: "string \<Rightarrow> real \<Rightarrow> world \<Rightarrow> world" where
  "started t v w =
     w\<lparr> audioContext := Some (resumed_context w),
        resumeListeners := (resumeListeners w \<or> audioContext w = None \<and> newContextState w = Suspended),
        currentVolume := v, currentNoiseType := t,
        randomPos := randomPos w + ctx_sampleRate (the_context w) * 2,
        nodes := nodes w @
          [BufferSource (Some \<lparr> buf_sampleRate = ctx_sampleRate (the_context w),
                                 buf_length = ctx_sampleRate (the_context w) * 2,
                                 buf_channels = [noise_samples (randomDraws w) (randomPos w) (ctx_sampleRate (the_context w) * 2)] \<rparr>)
             True Started, Gain v] @ chain_nodes t,
        connections := connections w @ chain_edges t (length (nodes w)),
        filterNodes := filterNodes w @ chain_ids t (length (nodes w)),
        bufferSources := bufferSources w @ [length (nodes w)],
        gainNodes := gainNodes w @ [Suc (length (nodes w))],
        isPlaying := True \<rparr>"

text \<open>What the two \<open>forEach\<close> loops do to the node they visit.\<close>

definition halt :: "node \<Rightarrow> node" where
  "halt n = (case n of BufferSource b l Started \<Rightarrow> BufferSource b l Stopped | _ \<Rightarrow> n)"

definition regain :: "real \<Rightarrow> node \<Rightarrow> node" where
  "regain v n = (case n of Gain _ \<Rightarrow> Gain v | _ \<Rightarrow> n)"

definition at_each :: "(node \<Rightarrow> node) \<Rightarrow> node_id list \<Rightarrow> node list \<Rightarrow> node list" where
  "at_each f ids ns = fold (\<lambda>i xs. xs[i := f (xs ! i)]) ids ns"

section \<open>Reachable states and the session invariant\<close>

inductive reachable :: "world \<Rightarrow> bool" where
  loaded: "reachable (initial st rate draws)"
| event: "reachable w \<Longrightarrow> reachable (step w e)"

definition session_inv :: "world \<Rightarrow> bool" where
  "session_inv w =
     ((if isPlaying w
       then length (bufferSources w) = 1 \<and> length (gainNodes w) = 1 \<and>
            length (filterNodes w) = length (chain_nodes (currentNoiseType w)) \<and>
            audioContext w \<noteq> None
       else bufferSources w = [] \<and> gainNodes w = [] \<and> filterNodes w = []) \<and>
      list_all (\<lambda>i. i < length (nodes w)) (session_nodes w))"

section \<open>The specification's side\<close>

text \<open>
  The policy table of the specification: the filter chain of each noise type. A type
  the table does not list has no entry.
\<close>

definition policy_table :: "string \<Rightarrow> node list option" where
  "policy_table t =
     (if t = ''white'' then Some []
      else if t = ''pink'' then Some [BiquadFilter Highpass 100 0.707]
      else if t = ''brown'' then Some [BiquadFilter Lowpass 500 0.707, BiquadFilter Lowpass 200 0.707]
      else None)"

text \<open>The edges of a chain wired in sequence: each node into the next.\<close>

fun path_edges :: "node_id list \<Rightarrow> (node_id \<times> target) list" where
  "path_edges (a # b # rest) = (a, Node b) # path_edges (b # rest)"
| "path_edges _ = []"

text \<open>
  \<open>changeType\<close> in the specification's words: nothing when not playing, otherwise
  \<open>stop()\<close> followed by \<open>start(newType, currentVolume)\<close>, with the volume current
  when \<open>changeType\<close> is called.
\<close>

definition spec_changeType :: "string \<Rightarrow> world \<Rightarrow> world" where
  "spec_changeType newType w =
     (if \<not> isPlaying w then w
      else startNoise newType (currentVolume w) (stopBrownNoise w))"

text \<open>A node with its gain value forgotten: what a volume change may not touch.\<close>

definition ungained :: "node \<Rightarrow> node" where
  "ungained n = (case n of Gain _ \<Rightarrow> Gain 0 | _ \<Rightarrow> n)"

section \<open>A concrete host\<close>

text \<open>
  A freshly loaded module on a host whose context starts suspended, with a sample rate
  of 2 and a random source that cycles through 0, 1/4, 1/2, 3/4.
\<close>

definition demo_draws :: "nat \<Rightarrow> real" where
  "demo_draws k = real (k mod 4) / 4"

definition demo_idle :: world where
  "demo_idle = initial Suspended 2 demo_draws"

text \<open>A context as the generator receives it, with a sample rate of 3.\<close>

definition demo_context :: audio_context where
  "demo_context = \<lparr> ctx_state = Running, ctx_sampleRate = 3, ctx_resumes = 0 \<rparr>"

section \<open>The older generator\<close>

text \<open>
  \<open>src/brownNoise.js\<close> is an older generator that sums seven bands. For each band it
  fills a buffer inline (its lines 50 to 56): the loop of \<open>generateWhiteNoiseBuffer\<close>,
  with the two seconds written into the size.
\<close>

definition legacy_band_buffer :: "audio_context \<Rightarrow> world \<Rightarrow> audio_buffer \<times> world" where
  "legacy_band_buffer ctx w =
     (let bufferSize = ctx_sampleRate ctx * 2;
          buffer = createBuffer 1 bufferSize (ctx_sampleRate ctx);
          (data, w1) = fill_noise 0 bufferSize (getChannelData buffer 0) w
      in (buffer\<lparr>buf_channels := (buf_channels buffer)[0 := data]\<rparr>, w1))"

section \<open>Properties of the operations\<close>

text \<open>
  The loop of the generator: it moves the random source on by one draw for each round,
  and writes draw \<open>k\<close>, scaled to \<open>draw * 2 - 1\<close>, at index \<open>k\<close>.
\<close>

lemma fill_noise_world: "snd (fill_noise i n d w) = w\<lparr>randomPos := randomPos w + (n - i)\<rparr>"
proof (induction i n d w rule: fill_noise.induct)
  case (1 i n d w)
  show ?case
  proof (cases "i < n")
    case True
    let ?d = "d[i := randomDraws w (randomPos w) * 2 - 1]"
    let ?w = "w\<lparr>randomPos := Suc (randomPos w)\<rparr>"
    have "snd (fill_noise (Suc i) n ?d ?w) = ?w\<lparr>randomPos := randomPos ?w + (n - Suc i)\<rparr>"
      by (rule 1[OF True]) (simp_all add: Math_random_def)
    with True show ?thesis
      by (subst fill_noise.simps) (simp add: Math_random_def)
  next
    case False
    then show ?thesis by (subst fill_noise.simps) simp
  qed
qed

lemma fill_noise_data:
  "n \<le> length d \<Longrightarrow> fst (fill_noise i n d w) =
     take i d @ map (\<lambda>k. randomDraws w (randomPos w + (k - i)) * 2 - 1) [i..<n] @ drop (max i n) d"
proof (induction i n d w rule: fill_noise.induct)
  case (1 i n d w)
  show ?case
  proof (cases "i < n")
    case True
    let ?d = "d[i := randomDraws w (randomPos w) * 2 - 1]"
    let ?w = "w\<lparr>randomPos := Suc (randomPos w)\<rparr>"
    have "fst (fill_noise (Suc i) n ?d ?w) =
        take (Suc i) ?d @
        map (\<lambda>k. randomDraws ?w (randomPos ?w + (k - Suc i)) * 2 - 1) [Suc i..<n] @
        drop (max (Suc i) n) ?d"
      using 1(2) by (intro 1(1)[OF True]) (simp_all add: Math_random_def)
    moreover have "take (Suc i) ?d = take i d @ [randomDraws w (randomPos w) * 2 - 1]"
      using True 1(2) by (simp add: take_Suc_conv_app_nth)
    moreover have "[i..<n] = i # [Suc i..<n]" using True by (simp add: upt_conv_Cons)
    moreover have "drop (max (Suc i) n) ?d = drop (max i n) d" using True by (simp add: max_def)
    moreover have "map (\<lambda>k. randomDraws ?w (randomPos ?w + (k - Suc i)) * 2 - 1) [Suc i..<n]
           = map (\<lambda>k. randomDraws w (randomPos w + (k - i)) * 2 - 1) [Suc i..<n]"
    proof (rule map_cong[OF refl])
      fix k assume "k \<in> set [Suc i..<n]"
      then have b: "randomPos ?w + (k - Suc i) = randomPos w + (k - i)" by auto
      have a: "randomDraws ?w = randomDraws w" by simp
      show "randomDraws ?w (randomPos ?w + (k - Suc i)) * 2 - 1 =
          randomDraws w (randomPos w + (k - i)) * 2 - 1"
        by (simp only: a b)
    qed
    ultimately show ?thesis using True
      by (subst fill_noise.simps) (simp add: Math_random_def)
  next
    case False
    then show ?thesis by (subst fill_noise.simps) (simp add: max_def)
  qed
qed

lemma generate_closed:
  "generateWhiteNoiseBuffer ctx duration w =
     (\<lparr> buf_sampleRate = ctx_sampleRate ctx, buf_length = ctx_sampleRate ctx * duration,
        buf_channels = [noise_samples (randomDraws w) (randomPos w) (ctx_sampleRate ctx * duration)] \<rparr>,
      w\<lparr>randomPos := randomPos w + ctx_sampleRate ctx * duration\<rparr>)"
  by (rule prod_eqI)
     (simp_all add: generateWhiteNoiseBuffer_def Let_def split_def fill_noise_world fill_noise_data
        createBuffer_def getChannelData_def noise_samples_def)

lemmas platform_defs =
  createBufferSource_def createGain_def createBiquadFilter_def update_node_def set_buffer_def
  set_loop_def set_gain_value_def set_filter_type_def set_frequency_value_def set_Q_value_def
  connect_def source_start_def ctx_resume_def

lemma init_closed:
  "initAudioContext w =
     (the_context w,
      w\<lparr>audioContext := Some (the_context w),
        resumeListeners := (resumeListeners w \<or> audioContext w = None \<and> newContextState w = Suspended)\<rparr>)"
  by (cases "audioContext w") (simp_all add: initAudioContext_def the_context_def Let_def)

lemma resume_if:
  "(if b then ctx_resume w else w) =
     w\<lparr>audioContext := map_option (\<lambda>c. if b then c\<lparr>ctx_resumes := Suc (ctx_resumes c)\<rparr> else c) (audioContext w)\<rparr>"
  by (simp add: ctx_resume_def option.map_ident)

lemmas started_unfold =
  startNoise_def init_closed resume_if generate_closed Let_def platform_defs started_def
  resumed_context_def chain_nodes_def chain_ids_def chain_edges_def nth_append

text \<open>A start from a state that is not playing, one case for each branch on the type.\<close>

lemma startNoise_started:
  assumes "\<not> isPlaying w"
  shows "startNoise t v w = started t v w"
proof -
  consider "t = ''white''" | "t = ''pink''" | "t = ''brown''"
    | "t \<noteq> ''white''" "t \<noteq> ''pink''" "t \<noteq> ''brown''" by blast
  then show ?thesis
  proof cases
    case 1
    then show ?thesis using assms by (simp add: started_unfold)
  next
    case 2
    then show ?thesis using assms by (simp add: started_unfold)
  next
    case 3
    then show ?thesis using assms by (simp add: started_unfold)
  next
    case 4
    then show ?thesis using assms by (simp add: started_unfold)
  qed
qed

text \<open>
  The \<open>try\<close>/\<open>catch\<close> around \<open>source.stop()\<close>: whether the call throws or not, the
  world afterwards is the old one with the source halted if it was playing.
\<close>

lemma nodes_same: "nodes w ! i = n \<Longrightarrow> w\<lparr>nodes := (nodes w)[i := n]\<rparr> = w"
  by auto

lemma try_stop:
  "(case source_stop i w of Inl e \<Rightarrow> w | Inr w1 \<Rightarrow> w1) =
     w\<lparr>nodes := (nodes w)[i := halt (nodes w ! i)]\<rparr>"
proof (cases "i < length (nodes w)")
  case True
  then show ?thesis
    by (simp add: source_stop_def halt_def nodes_same split: node.splits playback.splits)
next
  case False
  then have "length (nodes w) \<le> i" by simp
  then have "(nodes w)[i := halt (nodes w ! i)] = nodes w" by (rule list_update_beyond)
  with False show ?thesis by (simp add: source_stop_def)
qed

lemma stop_each_closed: "stop_each ids w = w\<lparr>nodes := at_each halt ids (nodes w)\<rparr>"
  by (induction ids arbitrary: w) (simp_all add: try_stop at_each_def)

lemma set_each_gain_closed: "set_each_gain ids v w = w\<lparr>nodes := at_each (regain v) ids (nodes w)\<rparr>"
  by (induction ids arbitrary: w) (simp_all add: set_gain_value_def update_node_def at_each_def regain_def)

lemma length_at_each [simp]: "length (at_each f ids ns) = length ns"
  by (induction ids arbitrary: ns) (simp_all add: at_each_def)

lemma stop_closed:
  "stopBrownNoise w =
     (if isPlaying w
      then w\<lparr>nodes := at_each halt (bufferSources w) (nodes w),
             bufferSources := [], gainNodes := [], filterNodes := [], isPlaying := False\<rparr>
      else w)"
  by (simp add: stopBrownNoise_def stop_each_closed Let_def)

lemma setVolume_closed:
  "setBrownNoiseVolume v w =
     w\<lparr>currentVolume := v, nodes := at_each (regain v) (gainNodes w) (nodes w)\<rparr>"
  by (simp add: setBrownNoiseVolume_def set_each_gain_closed Let_def)

lemma inv_initial: "session_inv (initial st rate draws)"
  by (simp add: session_inv_def initial_def session_nodes_def)

lemma startNoise_playing: "isPlaying w \<Longrightarrow> startNoise t v w = w"
  by (simp add: startNoise_def)

lemma inv_start: "session_inv w \<Longrightarrow> session_inv (startNoise t v w)"
  by (cases "isPlaying w")
     (auto simp add: startNoise_started startNoise_playing started_def session_inv_def session_nodes_def chain_ids_def
        list_all_iff)

lemma inv_stop: "session_inv w \<Longrightarrow> session_inv (stopBrownNoise w)"
  by (simp add: stop_closed session_inv_def session_nodes_def)

lemma inv_setVolume: "session_inv w \<Longrightarrow> session_inv (setBrownNoiseVolume v w)"
  by (simp add: setVolume_closed session_inv_def session_nodes_def)

lemma inv_visibility: "session_inv w \<Longrightarrow> session_inv (on_visibilitychange h w)"
  by (auto simp add: on_visibilitychange_def console_log_def init_closed resume_if session_inv_def session_nodes_def Let_def split: if_splits)

lemma inv_step: "session_inv w \<Longrightarrow> session_inv (step w e)"
proof (cases e)
  case (ChangeType t)
  assume "session_inv w"
  then show ?thesis using ChangeType
    by (simp add: changeNoiseType_def Let_def inv_start inv_stop)
next
  case Gesture
  assume "session_inv w"
  then show ?thesis using Gesture
    by (auto simp add: on_gesture_def ctx_resume_def session_inv_def session_nodes_def split: if_splits)
next
  case (PlatformState st)
  assume "session_inv w"
  then show ?thesis using PlatformState
    by (auto simp add: platform_state_def session_inv_def session_nodes_def split: if_splits)
next
  case (PlatformHalts i)
  assume "session_inv w"
  then show ?thesis using PlatformHalts
    by (simp add: platform_halts_def update_node_def session_inv_def session_nodes_def)
next
  case ResumeFulfilled
  assume "session_inv w"
  then show ?thesis using ResumeFulfilled
    by (simp add: on_resume_fulfilled_def session_inv_def session_nodes_def)
qed (simp_all add: inv_start inv_stop inv_setVolume inv_visibility startBrownNoise_def on_beforeunload_def)

lemma reachable_inv: "reachable w \<Longrightarrow> session_inv w"
  by (induction rule: reachable.induct) (simp_all add: inv_initial inv_step)

lemma reachable_run: "reachable w \<Longrightarrow> reachable (run w evs)"
  unfolding run_def
  by (induction evs arbitrary: w) (simp_all add: reachable.event)

lemma legacy_band_buffer_eq: "legacy_band_buffer ctx w = generateWhiteNoiseBuffer ctx 2 w"
  by (simp add: legacy_band_buffer_def generateWhiteNoiseBuffer_def)

lemma createBrownNoiseFilters_builds:
  "deref (snd (createBrownNoiseFilters w)) (fst (createBrownNoiseFilters w)) =
     [BiquadFilter Lowpass 1000 0.707, BiquadFilter Lowpass 500 0.707]"
  by (simp add: createBrownNoiseFilters_def Let_def platform_defs deref_def nth_append)

lemma createPinkNoiseFilter_builds:
  "deref (snd (createPinkNoiseFilter w)) [fst (createPinkNoiseFilter w)] =
     [BiquadFilter Highpass 20 1]"
  by (simp add: createPinkNoiseFilter_def Let_def platform_defs deref_def nth_append)

section \<open>The claims\<close>

lemmas eval_defs =
  run_def startNoise_started startNoise_playing started_def stop_closed setVolume_closed
  initial_def demo_idle_def the_context_def resumed_context_def chain_nodes_def chain_ids_def
  chain_edges_def at_each_def halt_def regain_def deref_def session_nodes_def
  isBrownNoisePlaying_def changeNoiseType_def startBrownNoise_def platform_halts_def
  update_node_def on_beforeunload_def

lemma reachable_demo: "reachable (run demo_idle evs)"
  unfolding demo_idle_def by (rule reachable_run[OF reachable.loaded])

text \<open>
  C1. In every reachable state the buffer sources and the gain nodes are non-empty
  exactly when \<open>isPlaying()\<close> returns true, and so is the session as a whole; when it
  returns false all three arrays are empty. While playing, \<open>filterNodes\<close> holds as many
  filters as the chain of the current type has stages, which is none for \<open>'white'\<close>.
\<close>

theorem session_iff_playing:
  assumes "reachable w"
  shows "(isBrownNoisePlaying w \<longleftrightarrow> bufferSources w \<noteq> []) \<and>
         (isBrownNoisePlaying w \<longleftrightarrow> gainNodes w \<noteq> []) \<and>
         (isBrownNoisePlaying w \<longleftrightarrow> session_nodes w \<noteq> []) \<and>
         (\<not> isBrownNoisePlaying w \<longrightarrow> filterNodes w = []) \<and>
         (isBrownNoisePlaying w \<longrightarrow>
            length (filterNodes w) = length (chain_nodes (currentNoiseType w))) \<and>
         (isBrownNoisePlaying w \<and> currentNoiseType w = ''white'' \<longrightarrow> filterNodes w = [])"
  using reachable_inv[OF assms]
  by (auto simp add: session_inv_def session_nodes_def isBrownNoisePlaying_def chain_nodes_def
      split: if_splits)

theorem session_iff_playing_witness:
  "reachable (run demo_idle [Start ''pink'' 0.5, SetVolume 0.2]) \<and>
   isBrownNoisePlaying (run demo_idle [Start ''pink'' 0.5, SetVolume 0.2]) \<and>
   bufferSources (run demo_idle [Start ''pink'' 0.5, SetVolume 0.2]) \<noteq> [] \<and>
   gainNodes (run demo_idle [Start ''pink'' 0.5, SetVolume 0.2]) \<noteq> [] \<and>
   length (filterNodes (run demo_idle [Start ''pink'' 0.5, SetVolume 0.2])) = 1 \<and>
   reachable (run demo_idle [Start ''pink'' 0.5, SetVolume 0.2, Stop]) \<and>
   \<not> isBrownNoisePlaying (run demo_idle [Start ''pink'' 0.5, SetVolume 0.2, Stop]) \<and>
   session_nodes (run demo_idle [Start ''pink'' 0.5, SetVolume 0.2, Stop]) = [] \<and>
   filterNodes (run demo_idle [Start ''pink'' 0.5, SetVolume 0.2, Stop]) = [] \<and>
   reachable (run demo_idle [Start ''white'' 0.5]) \<and>
   isBrownNoisePlaying (run demo_idle [Start ''white'' 0.5]) \<and>
   currentNoiseType (run demo_idle [Start ''white'' 0.5]) = ''white'' \<and>
   filterNodes (run demo_idle [Start ''white'' 0.5]) = []"
proof -
  let ?w = "run demo_idle [Start ''pink'' 0.5, SetVolume 0.2]"
  let ?u = "run demo_idle [Start ''pink'' 0.5, SetVolume 0.2, Stop]"
  let ?x = "run demo_idle [Start ''white'' 0.5]"
  have r: "reachable ?w" "reachable ?u" "reachable ?x" by (rule reachable_demo)+
  have e: "isBrownNoisePlaying ?w" "currentNoiseType ?w = ''pink''"
    "\<not> isBrownNoisePlaying ?u" "isBrownNoisePlaying ?x" "currentNoiseType ?x = ''white''"
    by (simp_all add: eval_defs)
  have c: "length (chain_nodes ''pink'') = 1" by (simp add: chain_nodes_def)
  from session_iff_playing[OF r(1)] session_iff_playing[OF r(2)] session_iff_playing[OF r(3)]
    r e c
  show ?thesis by auto
qed

text \<open>
  C1 as stated asks every one of the three arrays to be non-empty while playing. After
  \<open>startNoise('white', 0.3)\<close> the engine plays and \<open>filterNodes\<close> is empty.
\<close>

theorem white_session_counterexample:
  "isBrownNoisePlaying (run demo_idle [Start ''white'' 0.3]) \<and>
   filterNodes (run demo_idle [Start ''white'' 0.3]) = []"
  by (simp add: eval_defs)

lemma path_edges_chain:
  "policy_table t = Some stages \<Longrightarrow>
     path_edges (n # chain_ids t n @ [Suc n]) @ [(Suc n, Destination)] = chain_edges t n"
  by (auto simp add: policy_table_def chain_ids_def chain_edges_def chain_nodes_def
      split: if_splits)

lemma policy_table_chain: "policy_table t = Some stages \<Longrightarrow> chain_nodes t = stages"
  by (auto simp add: policy_table_def chain_nodes_def split: if_splits)

lemma deref_started_filters:
  "deref (started t v w) (chain_ids t (length (nodes w))) = chain_nodes t"
  by (simp add: deref_def started_def chain_ids_def chain_nodes_def nth_append)

text \<open>
  C2. A start from a reachable state that is not playing, with a type the policy table
  lists, builds exactly the table's chain: \<open>filterNodes\<close> refers to the table's stages
  in order (none for white, one high-pass at 100 Hz and Q 0.707 for pink, two low-pass
  stages at 500 Hz and 200 Hz with Q 0.707 for brown), and the new edges run from the
  source through these filters into the gain node and from there to the destination.
\<close>

theorem startNoise_policy_chain:
  assumes "reachable w" and "\<not> isPlaying w" and "policy_table t = Some stages"
  shows "let w' = startNoise t v w; source = length (nodes w); gainNode = Suc source in
           isBrownNoisePlaying w' \<and>
           bufferSources w' = [source] \<and> gainNodes w' = [gainNode] \<and>
           length (filterNodes w') = length stages \<and>
           deref w' (filterNodes w') = stages \<and>
           deref w' [gainNode] = [Gain v] \<and>
           connections w' =
             connections w @ path_edges (source # filterNodes w' @ [gainNode]) @
               [(gainNode, Destination)]"
proof -
  from reachable_inv[OF assms(1)] assms(2)
  have empty: "bufferSources w = []" "gainNodes w = []" "filterNodes w = []"
    by (simp_all add: session_inv_def)
  have chain: "chain_nodes t = stages" using assms(3) by (rule policy_table_chain)
  have f: "filterNodes (started t v w) = chain_ids t (length (nodes w))"
    using empty by (simp add: started_def)
  have d: "deref (started t v w) (filterNodes (started t v w)) = stages"
    unfolding f using chain by (simp add: deref_started_filters)
  have c: "connections (started t v w) = connections w @ chain_edges t (length (nodes w))"
    by (simp add: started_def)
  have g: "deref (started t v w) [Suc (length (nodes w))] = [Gain v]"
    by (simp add: deref_def started_def nth_append)
  have l: "length (chain_ids t (length (nodes w))) = length stages"
    using chain by (simp add: chain_ids_def)
  have b: "bufferSources (started t v w) = [length (nodes w)]"
    "gainNodes (started t v w) = [Suc (length (nodes w))]" "isPlaying (started t v w)"
    using empty by (simp_all add: started_def)
  show ?thesis
    using b d g l c
    by (simp add: startNoise_started[OF assms(2)] Let_def f path_edges_chain[OF assms(3)]
        isBrownNoisePlaying_def del: path_edges.simps)
qed

theorem startNoise_policy_chain_witness:
  "reachable demo_idle \<and> \<not> isPlaying demo_idle \<and>
   policy_table ''brown'' =
     Some [BiquadFilter Lowpass 500 0.707, BiquadFilter Lowpass 200 0.707] \<and>
   filterNodes (startNoise ''brown'' 0.5 demo_idle) = [2, 3] \<and>
   deref (startNoise ''brown'' 0.5 demo_idle) (filterNodes (startNoise ''brown'' 0.5 demo_idle)) =
     [BiquadFilter Lowpass 500 0.707, BiquadFilter Lowpass 200 0.707] \<and>
   connections (startNoise ''brown'' 0.5 demo_idle) =
     [(0, Node 2), (2, Node 3), (3, Node 1), (1, Destination)]"
proof -
  have r: "reachable demo_idle" unfolding demo_idle_def by (rule reachable.loaded)
  have i: "\<not> isPlaying demo_idle" by (simp add: demo_idle_def initial_def)
  have p: "policy_table ''brown'' =
     Some [BiquadFilter Lowpass 500 0.707, BiquadFilter Lowpass 200 0.707]"
    by (simp add: policy_table_def)
  have e: "filterNodes (startNoise ''brown'' 0.5 demo_idle) = [2, 3]"
    "nodes demo_idle = []" "connections demo_idle = []"
    by (simp_all add: eval_defs)
  from startNoise_policy_chain[OF r i p, of "0.5"] r i p e show ?thesis
    by (simp add: Let_def)
qed

lemma stop_keeps_volume: "currentVolume (stopBrownNoise w) = currentVolume w"
  by (simp add: stop_closed)

lemma stop_not_playing: "\<not> isPlaying (stopBrownNoise w)"
  by (simp add: stop_closed)

lemma inv_playing_lists:
  "session_inv w \<Longrightarrow> isPlaying w \<Longrightarrow>
     length (bufferSources w) = 1 \<and> length (gainNodes w) = 1 \<and>
     length (filterNodes w) = length (chain_nodes (currentNoiseType w)) \<and>
     (\<forall>i \<in> set (session_nodes w). i < length (nodes w))"
  by (simp add: session_inv_def list_all_iff)

text \<open>
  C3. \<open>changeNoiseType\<close> is the specification's \<open>changeType\<close>: nothing when not
  playing; when playing, \<open>stopBrownNoise\<close> followed by \<open>startNoise\<close> with the new type
  and the current volume. From a reachable state playing \<open>'brown'\<close>, \<open>changeType('white')\<close>
  leaves the engine playing, with no filter where the brown chain had two, on a source
  and a gain node that are new and wired source to gain to destination.
\<close>

theorem changeNoiseType_rebuilds:
  "changeNoiseType t w = spec_changeType t w \<and>
   (\<not> isPlaying w \<longrightarrow> changeNoiseType t w = w) \<and>
   (isPlaying w \<longrightarrow> changeNoiseType t w = startNoise t (currentVolume w) (stopBrownNoise w)) \<and>
   (reachable w \<and> isPlaying w \<and> currentNoiseType w = ''brown'' \<longrightarrow>
      (let w' = changeNoiseType ''white'' w; source = length (nodes w); gainNode = Suc source in
         isBrownNoisePlaying w' \<and> currentNoiseType w' = ''white'' \<and>
         currentVolume w' = currentVolume w \<and>
         length (filterNodes w) = 2 \<and> filterNodes w' = [] \<and>
         bufferSources w' = [source] \<and> gainNodes w' = [gainNode] \<and>
         list_all (\<lambda>i. i \<notin> set (session_nodes w)) (session_nodes w') \<and>
         deref w' (gainNodes w') = [Gain (currentVolume w)] \<and>
         connections w' = connections w @ [(source, Node gainNode), (gainNode, Destination)]))"
proof -
  have refine: "changeNoiseType t w = spec_changeType t w"
    by (simp add: changeNoiseType_def spec_changeType_def Let_def stop_keeps_volume)
  have idle: "\<not> isPlaying w \<longrightarrow> changeNoiseType t w = w"
    by (simp add: changeNoiseType_def)
  have playing: "isPlaying w \<longrightarrow> changeNoiseType t w = startNoise t (currentVolume w) (stopBrownNoise w)"
    by (simp add: changeNoiseType_def Let_def stop_keeps_volume)
  have brown: "let w' = changeNoiseType ''white'' w; source = length (nodes w); gainNode = Suc source in
         isBrownNoisePlaying w' \<and> currentNoiseType w' = ''white'' \<and>
         currentVolume w' = currentVolume w \<and>
         length (filterNodes w) = 2 \<and> filterNodes w' = [] \<and>
         bufferSources w' = [source] \<and> gainNodes w' = [gainNode] \<and>
         list_all (\<lambda>i. i \<notin> set (session_nodes w)) (session_nodes w') \<and>
         deref w' (gainNodes w') = [Gain (currentVolume w)] \<and>
         connections w' = connections w @ [(source, Node gainNode), (gainNode, Destination)]"
    if r: "reachable w" and p: "isPlaying w" and b: "currentNoiseType w = ''brown''"
  proof -
    from inv_playing_lists[OF reachable_inv[OF r] p] b
    have two: "length (filterNodes w) = 2"
      and old: "\<forall>i \<in> set (session_nodes w). i < length (nodes w)"
      by (simp_all add: chain_nodes_def)
    have eq: "changeNoiseType ''white'' w = started ''white'' (currentVolume w) (stopBrownNoise w)"
      using p by (simp add: changeNoiseType_def Let_def stop_keeps_volume startNoise_started stop_not_playing)
    have fresh: "list_all (\<lambda>i. i \<notin> set (session_nodes w)) [length (nodes w), Suc (length (nodes w))]"
      using old by auto
    show ?thesis
      unfolding eq Let_def using p two fresh
      by (simp add: started_def stop_closed chain_nodes_def chain_ids_def chain_edges_def
          session_nodes_def deref_def isBrownNoisePlaying_def nth_append)
  qed
  from refine idle playing brown show ?thesis by blast
qed

theorem changeNoiseType_rebuilds_witness:
  "reachable (run demo_idle [Start ''brown'' 0.5]) \<and>
   isPlaying (run demo_idle [Start ''brown'' 0.5]) \<and>
   currentNoiseType (run demo_idle [Start ''brown'' 0.5]) = ''brown'' \<and>
   filterNodes (run demo_idle [Start ''brown'' 0.5]) = [2, 3] \<and>
   isBrownNoisePlaying (changeNoiseType ''white'' (run demo_idle [Start ''brown'' 0.5])) \<and>
   filterNodes (changeNoiseType ''white'' (run demo_idle [Start ''brown'' 0.5])) = [] \<and>
   bufferSources (changeNoiseType ''white'' (run demo_idle [Start ''brown'' 0.5])) = [4] \<and>
   gainNodes (changeNoiseType ''white'' (run demo_idle [Start ''brown'' 0.5])) = [5] \<and>
   \<not> isPlaying demo_idle \<and> changeNoiseType ''white'' demo_idle = demo_idle"
proof -
  let ?w = "run demo_idle [Start ''brown'' 0.5]"
  have r: "reachable ?w" by (rule reachable_demo)
  have e: "isPlaying ?w" "currentNoiseType ?w = ''brown''" "filterNodes ?w = [2, 3]"
    "length (nodes ?w) = 4" "\<not> isPlaying demo_idle"
    by (simp_all add: eval_defs)
  from changeNoiseType_rebuilds[of "''white''" ?w] changeNoiseType_rebuilds[of "''white''" demo_idle] r e
  show ?thesis by (auto simp add: Let_def)
qed

text \<open>
  C4. A second \<open>startNoise\<close> changes nothing, whatever its arguments: after
  \<open>startNoise(t, v)\<close> the state is the same with or without a following
  \<open>startNoise(t2, v2)\<close>. From a state that is not playing, that state is the playing
  session of \<open>t\<close> and \<open>v\<close>.
\<close>

theorem second_start_is_noop:
  "startNoise t2 v2 (startNoise t v w) = startNoise t v w \<and>
   (\<not> isPlaying w \<longrightarrow>
      isBrownNoisePlaying (startNoise t v w) \<and>
      currentNoiseType (startNoise t v w) = t \<and>
      currentVolume (startNoise t v w) = v \<and>
      nodes (startNoise t v w) ! last (gainNodes (startNoise t v w)) = Gain v)"
proof -
  have "isPlaying (startNoise t v w)"
    by (cases "isPlaying w") (simp_all add: startNoise_started startNoise_playing started_def)
  then have "startNoise t2 v2 (startNoise t v w) = startNoise t v w"
    by (rule startNoise_playing)
  moreover have "\<not> isPlaying w \<longrightarrow>
      isBrownNoisePlaying (startNoise t v w) \<and>
      currentNoiseType (startNoise t v w) = t \<and>
      currentVolume (startNoise t v w) = v \<and>
      nodes (startNoise t v w) ! last (gainNodes (startNoise t v w)) = Gain v"
    by (simp add: startNoise_started started_def isBrownNoisePlaying_def nth_append)
  ultimately show ?thesis by blast
qed

theorem second_start_is_noop_witness:
  "\<not> isPlaying demo_idle \<and>
   startNoise ''white'' 0.9 (startNoise ''pink'' 0.5 demo_idle) = startNoise ''pink'' 0.5 demo_idle \<and>
   isBrownNoisePlaying (startNoise ''pink'' 0.5 demo_idle) \<and>
   currentNoiseType (startNoise ''white'' 0.9 (startNoise ''pink'' 0.5 demo_idle)) = ''pink'' \<and>
   currentVolume (startNoise ''white'' 0.9 (startNoise ''pink'' 0.5 demo_idle)) = 0.5"
proof -
  have i: "\<not> isPlaying demo_idle" by (simp add: demo_idle_def initial_def)
  from second_start_is_noop[of "''white''" "0.9" "''pink''" "0.5" demo_idle] i
  show ?thesis by simp
qed

lemma halt_idem: "halt (halt n) = halt n"
  by (simp add: halt_def split: node.splits playback.splits)

lemma nth_at_each_halt:
  "s < length ns \<Longrightarrow> at_each halt ids ns ! s = (if s \<in> set ids then halt (ns ! s) else ns ! s)"
proof (induction ids arbitrary: ns)
  case Nil
  then show ?case by (simp add: at_each_def)
next
  case (Cons i ids)
  have unfold: "at_each halt (i # ids) ns = at_each halt ids (ns[i := halt (ns ! i)])"
    by (simp add: at_each_def)
  from Cons.prems have "s < length (ns[i := halt (ns ! i)])" by simp
  from Cons.IH[OF this] Cons.prems show ?case
    unfolding unfold by (cases "i = s") (auto simp add: halt_idem)
qed

text \<open>
  C5. \<open>stopBrownNoise\<close> is idempotent and leaves \<open>isPlaying()\<close> false. While
  playing it clears the three arrays and the flag, also when \<open>source.stop()\<close> throws on
  a source the platform has already halted; that source is left as it was.
\<close>

theorem stop_idempotent_and_tolerant:
  "stopBrownNoise (stopBrownNoise w) = stopBrownNoise w \<and>
   \<not> isBrownNoisePlaying (stopBrownNoise w) \<and>
   (isPlaying w \<longrightarrow>
      bufferSources (stopBrownNoise w) = [] \<and> gainNodes (stopBrownNoise w) = [] \<and>
      filterNodes (stopBrownNoise w) = []) \<and>
   (isPlaying w \<and> s \<in> set (bufferSources w) \<and> source_stop s w = Inl InvalidStateError \<longrightarrow>
      \<not> isBrownNoisePlaying (stopBrownNoise w) \<and> session_nodes (stopBrownNoise w) = [] \<and>
      (s < length (nodes w) \<longrightarrow> nodes (stopBrownNoise w) ! s = nodes w ! s))"
proof -
  have "nodes (stopBrownNoise w) ! s = nodes w ! s"
    if p: "isPlaying w" and t: "source_stop s w = Inl InvalidStateError"
      and l: "s < length (nodes w)"
  proof -
    have "halt (nodes w ! s) = nodes w ! s"
      using t l by (auto simp add: source_stop_def halt_def split: node.splits playback.splits)
    with p l show ?thesis by (simp add: stop_closed nth_at_each_halt)
  qed
  then show ?thesis
    by (simp add: stop_closed isBrownNoisePlaying_def session_nodes_def)
qed

theorem stop_idempotent_and_tolerant_witness:
  "isPlaying (run demo_idle [Start ''brown'' 0.5, PlatformHalts 0]) \<and>
   0 \<in> set (bufferSources (run demo_idle [Start ''brown'' 0.5, PlatformHalts 0])) \<and>
   source_stop 0 (run demo_idle [Start ''brown'' 0.5, PlatformHalts 0]) = Inl InvalidStateError \<and>
   \<not> isBrownNoisePlaying (stopBrownNoise (run demo_idle [Start ''brown'' 0.5, PlatformHalts 0])) \<and>
   session_nodes (stopBrownNoise (run demo_idle [Start ''brown'' 0.5, PlatformHalts 0])) = [] \<and>
   0 < length (nodes (run demo_idle [Start ''brown'' 0.5, PlatformHalts 0])) \<and>
   nodes (stopBrownNoise (run demo_idle [Start ''brown'' 0.5, PlatformHalts 0])) ! 0 =
     nodes (run demo_idle [Start ''brown'' 0.5, PlatformHalts 0]) ! 0 \<and>
   stopBrownNoise (stopBrownNoise (run demo_idle [Start ''brown'' 0.5, PlatformHalts 0])) =
     stopBrownNoise (run demo_idle [Start ''brown'' 0.5, PlatformHalts 0])"
proof -
  let ?w = "run demo_idle [Start ''brown'' 0.5, PlatformHalts 0]"
  have e: "isPlaying ?w" "0 \<in> set (bufferSources ?w)" "source_stop 0 ?w = Inl InvalidStateError"
    "0 < length (nodes ?w)"
    by (simp_all add: eval_defs source_stop_def)
  from stop_idempotent_and_tolerant[of ?w 0] e show ?thesis by auto
qed

lemma inv_idle_lists:
  "session_inv w \<Longrightarrow> \<not> isPlaying w \<Longrightarrow>
     bufferSources w = [] \<and> gainNodes w = [] \<and> filterNodes w = []"
  by (simp add: session_inv_def)

text \<open>
  C6. \<open>setBrownNoiseVolume(v)\<close> always stores \<open>v\<close> as the current volume. A
  following \<open>startNoise(t, v')\<close> does not read it: it stores \<open>v'\<close> and gives the new
  gain node the value \<open>v'\<close>. The stored volume is read by \<open>changeNoiseType\<close> while
  playing, whose rebuilt session has a gain node of value \<open>v\<close>.
\<close>

theorem setVolume_stored_start_overrides:
  "currentVolume (setBrownNoiseVolume v w) = v \<and>
   (reachable w \<and> \<not> isPlaying w \<longrightarrow>
      (let w' = startNoise t v' (setBrownNoiseVolume v w) in
         currentVolume w' = v' \<and> deref w' (gainNodes w') = [Gain v'])) \<and>
   (reachable w \<and> isPlaying w \<longrightarrow>
      (let w' = changeNoiseType t (setBrownNoiseVolume v w) in
         currentVolume w' = v \<and> deref w' (gainNodes w') = [Gain v]))"
proof -
  have stored: "currentVolume (setBrownNoiseVolume v w) = v"
    by (simp add: setVolume_closed)
  have idle: "let w' = startNoise t v' (setBrownNoiseVolume v w) in
         currentVolume w' = v' \<and> deref w' (gainNodes w') = [Gain v']"
    if r: "reachable w" and p: "\<not> isPlaying w"
  proof -
    from inv_idle_lists[OF reachable_inv[OF r] p] have g: "gainNodes w = []" by simp
    have q: "\<not> isPlaying (setBrownNoiseVolume v w)" using p by (simp add: setVolume_closed)
    show ?thesis
      unfolding Let_def startNoise_started[OF q] using g
      by (simp add: started_def setVolume_closed deref_def nth_append)
  qed
  have playing: "let w' = changeNoiseType t (setBrownNoiseVolume v w) in
         currentVolume w' = v \<and> deref w' (gainNodes w') = [Gain v]"
    if p: "isPlaying w"
  proof -
    have q: "isPlaying (setBrownNoiseVolume v w)" using p by (simp add: setVolume_closed)
    have eq: "changeNoiseType t (setBrownNoiseVolume v w) =
        started t v (stopBrownNoise (setBrownNoiseVolume v w))"
      using q by (simp add: changeNoiseType_def Let_def startNoise_started stop_not_playing
          stop_keeps_volume stored)
    show ?thesis
      unfolding Let_def eq using q
      by (simp add: started_def stop_closed deref_def nth_append)
  qed
  from stored idle playing show ?thesis by blast
qed

theorem setVolume_stored_start_overrides_witness:
  "reachable demo_idle \<and> \<not> isPlaying demo_idle \<and>
   currentVolume (setBrownNoiseVolume 0.8 demo_idle) = 0.8 \<and>
   currentVolume (startNoise ''brown'' 0.2 (setBrownNoiseVolume 0.8 demo_idle)) = 0.2 \<and>
   reachable (run demo_idle [Start ''brown'' 0.5]) \<and>
   isPlaying (run demo_idle [Start ''brown'' 0.5]) \<and>
   deref (changeNoiseType ''pink'' (setBrownNoiseVolume 0.8 (run demo_idle [Start ''brown'' 0.5])))
     (gainNodes (changeNoiseType ''pink'' (setBrownNoiseVolume 0.8 (run demo_idle [Start ''brown'' 0.5])))) =
     [Gain 0.8]"
proof -
  let ?w = "run demo_idle [Start ''brown'' 0.5]"
  have r: "reachable demo_idle" "reachable ?w"
    using reachable_demo[of "[]"] reachable_demo[of "[Start ''brown'' 0.5]"]
    by (simp_all add: run_def)
  have e: "\<not> isPlaying demo_idle" "isPlaying ?w"
    by (simp_all add: eval_defs)
  from setVolume_stored_start_overrides[of "0.8" demo_idle "''brown''" "0.2"]
    setVolume_stored_start_overrides[of "0.8" ?w "''pink''"] r e
  show ?thesis by (auto simp add: Let_def)
qed

text \<open>
  C6 as stated has a following start use the stored volume. After
  \<open>setBrownNoiseVolume(0.8)\<close> and \<open>startNoise('brown', 0.2)\<close> the gain node has the
  value 0.2, and the stored volume is 0.2.
\<close>

theorem start_ignores_stored_volume_counterexample:
  "currentVolume (run demo_idle [SetVolume 0.8]) = 0.8 \<and>
   deref (run demo_idle [SetVolume 0.8, Start ''brown'' 0.2])
     (gainNodes (run demo_idle [SetVolume 0.8, Start ''brown'' 0.2])) = [Gain 0.2] \<and>
   deref (run demo_idle [SetVolume 0.8, Start ''brown'' 0.2])
     (gainNodes (run demo_idle [SetVolume 0.8, Start ''brown'' 0.2])) \<noteq> [Gain 0.8] \<and>
   currentVolume (run demo_idle [SetVolume 0.8, Start ''brown'' 0.2]) = 0.2"
  by (simp add: eval_defs)

lemma ungained_regain: "ungained (regain v n) = ungained n"
  by (simp add: ungained_def regain_def split: node.splits)

lemma map_ungained_at_each: "map ungained (at_each (regain v) ids ns) = map ungained ns"
proof (induction ids arbitrary: ns)
  case Nil
  then show ?case by (simp add: at_each_def)
next
  case (Cons i ids)
  have unfold: "at_each (regain v) (i # ids) ns = at_each (regain v) ids (ns[i := regain v (ns ! i)])"
    by (simp add: at_each_def)
  have "map ungained (ns[i := regain v (ns ! i)]) = map ungained ns"
  proof (cases "i < length ns")
    case True
    then have "(map ungained ns)[i := ungained (ns ! i)] = map ungained ns"
      by (metis list_update_id nth_map)
    then show ?thesis by (simp add: map_update ungained_regain)
  next
    case False
    then have "length ns \<le> i" by simp
    then have "ns[i := regain v (ns ! i)] = ns" by (rule list_update_beyond)
    then show ?thesis by simp
  qed
  with Cons.IH[of "ns[i := regain v (ns ! i)]"] show ?case unfolding unfold by simp
qed

text \<open>
  C7. \<open>setBrownNoiseVolume(v)\<close>, for every \<open>v\<close> and so for every \<open>v\<close> between 0 and
  1, leaves \<open>isPlaying()\<close> as it was, and with it the three arrays, the context, the
  edges and the number of nodes; no node changes but for the value of a gain node.
\<close>

theorem setVolume_keeps_playback:
  "let w' = setBrownNoiseVolume v w in
     isBrownNoisePlaying w' = isBrownNoisePlaying w \<and>
     bufferSources w' = bufferSources w \<and> gainNodes w' = gainNodes w \<and>
     filterNodes w' = filterNodes w \<and> audioContext w' = audioContext w \<and>
     currentNoiseType w' = currentNoiseType w \<and>
     length (nodes w') = length (nodes w) \<and>
     map ungained (nodes w') = map ungained (nodes w) \<and>
     connections w' = connections w"
  by (simp add: Let_def setVolume_closed isBrownNoisePlaying_def map_ungained_at_each)

theorem setVolume_keeps_playback_witness:
  "isBrownNoisePlaying (run demo_idle [Start ''pink'' 0.5]) \<and>
   isBrownNoisePlaying (setBrownNoiseVolume 0.2 (run demo_idle [Start ''pink'' 0.5])) \<and>
   session_nodes (setBrownNoiseVolume 0.2 (run demo_idle [Start ''pink'' 0.5])) = [0, 1, 2] \<and>
   \<not> isBrownNoisePlaying demo_idle \<and>
   \<not> isBrownNoisePlaying (setBrownNoiseVolume 1 demo_idle) \<and>
   length (nodes (setBrownNoiseVolume 1 demo_idle)) = 0"
proof -
  let ?w = "run demo_idle [Start ''pink'' 0.5]"
  have e: "isBrownNoisePlaying ?w" "session_nodes ?w = [0, 1, 2]"
    "\<not> isBrownNoisePlaying demo_idle" "nodes demo_idle = []"
    by (simp_all add: eval_defs)
  from setVolume_keeps_playback[of "0.2" ?w] setVolume_keeps_playback[of 1 demo_idle] e
  show ?thesis by (auto simp add: Let_def session_nodes_def)
qed

lemma noise_samples_bounded:
  assumes "\<forall>k. 0 \<le> draws k \<and> draws k < 1"
  shows "list_all (\<lambda>x. - 1 \<le> x \<and> x \<le> 1) (noise_samples draws pos n)"
proof -
  have "- 1 \<le> draws k * 2 - 1 \<and> draws k * 2 - 1 \<le> 1" for k
    using assms[rule_format, of k] by simp
  then show ?thesis by (simp add: noise_samples_def list_all_iff)
qed

text \<open>
  C8. When \<open>Math.random()\<close> returns numbers from 0 up to but excluding 1,
  \<open>generateWhiteNoiseBuffer\<close> returns, for every sample rate and duration, a buffer of
  sample rate times duration samples, each between -1 and 1 (draw \<open>k\<close> times 2 minus 1
  at index \<open>k\<close>). It changes none of the module's variables, no node and no edge: only
  the position of the random source moves on.
\<close>

theorem generateWhiteNoiseBuffer_bounded:
  assumes "\<forall>k. 0 \<le> randomDraws w k \<and> randomDraws w k < 1"
  shows "let (buffer, w') = generateWhiteNoiseBuffer ctx duration w in
           buf_length buffer = ctx_sampleRate ctx * duration \<and>
           length (getChannelData buffer 0) = ctx_sampleRate ctx * duration \<and>
           list_all (\<lambda>x. - 1 \<le> x \<and> x \<le> 1) (getChannelData buffer 0) \<and>
           getChannelData buffer 0 =
             noise_samples (randomDraws w) (randomPos w) (ctx_sampleRate ctx * duration) \<and>
           engine.truncate w' = engine.truncate w \<and>
           nodes w' = nodes w \<and> connections w' = connections w \<and>
           w' = w\<lparr>randomPos := randomPos w + ctx_sampleRate ctx * duration\<rparr>"
  using noise_samples_bounded[OF assms]
  by (simp add: generate_closed getChannelData_def engine.truncate_def)
     (simp add: noise_samples_def)

lemma demo_draws_range: "\<forall>k. 0 \<le> demo_draws k \<and> demo_draws k < 1"
proof
  fix k
  have "k mod 4 < (4::nat)" by simp
  then have "real (k mod 4) < 4" by (simp del: mod_less_divisor)
  then show "0 \<le> demo_draws k \<and> demo_draws k < 1" by (simp add: demo_draws_def)
qed

theorem generateWhiteNoiseBuffer_bounded_witness:
  "(\<forall>k. 0 \<le> randomDraws demo_idle k \<and> randomDraws demo_idle k < 1) \<and>
   getChannelData (fst (generateWhiteNoiseBuffer demo_context 2 demo_idle)) 0 =
     [- 1, - 1 / 2, 0, 1 / 2, - 1, - 1 / 2] \<and>
   buf_length (fst (generateWhiteNoiseBuffer demo_context 2 demo_idle)) = 6 \<and>
   list_all (\<lambda>x. - 1 \<le> x \<and> x \<le> 1)
     (getChannelData (fst (generateWhiteNoiseBuffer demo_context 2 demo_idle)) 0) \<and>
   engine.truncate (snd (generateWhiteNoiseBuffer demo_context 2 demo_idle)) =
     engine.truncate demo_idle"
proof -
  have d: "randomDraws demo_idle = demo_draws" "randomPos demo_idle = 0"
    by (simp_all add: demo_idle_def initial_def)
  have h: "\<forall>k. 0 \<le> randomDraws demo_idle k \<and> randomDraws demo_idle k < 1"
    unfolding d by (rule demo_draws_range)
  have s: "noise_samples demo_draws 0 6 = [- 1, - 1 / 2, 0, 1 / 2, - 1, - 1 / 2]"
    by (simp add: noise_samples_def demo_draws_def upt_rec)
  from generateWhiteNoiseBuffer_bounded[OF h, of demo_context 2] h s d
  show ?thesis by (simp add: split_def Let_def demo_context_def engine.truncate_def)
qed

text \<open>
  C9. The \<open>visibilitychange\<close> listener on a hidden page writes a line to the
  console when playing and does nothing else: the module's variables, the nodes and the
  edges stay as they are, and playback goes on. Hidden or shown, the listener changes
  neither the playing flag, the stored type and volume, nor the session's nodes. The
  \<open>beforeunload\<close> listener is \<open>stopBrownNoise\<close>.
\<close>

theorem hidden_keeps_playing:
  "on_visibilitychange True w =
     (if isPlaying w then w\<lparr>console := console w @ [''Background playback: Noise continues'']\<rparr>
      else w) \<and>
   engine.truncate (on_visibilitychange True w) = engine.truncate w \<and>
   nodes (on_visibilitychange True w) = nodes w \<and>
   connections (on_visibilitychange True w) = connections w \<and>
   (isPlaying w \<longrightarrow> isBrownNoisePlaying (on_visibilitychange True w)) \<and>
   isPlaying (on_visibilitychange h w) = isPlaying w \<and>
   session_nodes (on_visibilitychange h w) = session_nodes w \<and>
   nodes (on_visibilitychange h w) = nodes w \<and>
   currentVolume (on_visibilitychange h w) = currentVolume w \<and>
   currentNoiseType (on_visibilitychange h w) = currentNoiseType w \<and>
   on_beforeunload w = stopBrownNoise w \<and>
   \<not> isPlaying (on_beforeunload w)"
  by (simp add: on_visibilitychange_def console_log_def on_beforeunload_def init_closed
      resume_if engine.truncate_def isBrownNoisePlaying_def session_nodes_def stop_not_playing)

theorem hidden_keeps_playing_witness:
  "isPlaying (run demo_idle [Start ''brown'' 0.5]) \<and>
   isBrownNoisePlaying (on_visibilitychange True (run demo_idle [Start ''brown'' 0.5])) \<and>
   engine.truncate (on_visibilitychange True (run demo_idle [Start ''brown'' 0.5])) =
     engine.truncate (run demo_idle [Start ''brown'' 0.5]) \<and>
   session_nodes (on_visibilitychange True (run demo_idle [Start ''brown'' 0.5])) = [0, 1, 2, 3] \<and>
   \<not> isPlaying (on_beforeunload (run demo_idle [Start ''brown'' 0.5]))"
proof -
  let ?w = "run demo_idle [Start ''brown'' 0.5]"
  have e: "isPlaying ?w" "session_nodes ?w = [0, 1, 2, 3]"
    by (simp_all add: eval_defs)
  from hidden_keeps_playing[of ?w True] e show ?thesis by auto
qed

text \<open>
  C10. \<open>changeNoiseType(t)\<close> while not playing leaves the whole state as it is, so
  the stored noise type stays the previous one; \<open>setBrownNoiseVolume(v)\<close> in the same
  state does store \<open>v\<close>.
\<close>

theorem changeType_idle_keeps_type:
  assumes "\<not> isPlaying w"
  shows "changeNoiseType t w = w \<and>
         currentNoiseType (changeNoiseType t w) = currentNoiseType w \<and>
         currentVolume (setBrownNoiseVolume v w) = v \<and>
         \<not> isPlaying (setBrownNoiseVolume v w)"
  using assms by (simp add: changeNoiseType_def setVolume_closed)

theorem changeType_idle_keeps_type_witness:
  "\<not> isPlaying demo_idle \<and>
   changeNoiseType ''white'' demo_idle = demo_idle \<and>
   currentNoiseType (changeNoiseType ''white'' demo_idle) = ''brown'' \<and>
   currentVolume demo_idle = 0.3 \<and>
   currentVolume (setBrownNoiseVolume 0.8 demo_idle) = 0.8"
proof -
  have e: "\<not> isPlaying demo_idle" "currentNoiseType demo_idle = ''brown''"
    "currentVolume demo_idle = 0.3"
    by (simp_all add: demo_idle_def initial_def)
  from changeType_idle_keeps_type[OF e(1), of "''white''" "0.8"] e show ?thesis by simp
qed

end
